theory Spec2Isabelle
  imports Main "HOL-Library.Word"
begin

section \<open>JavaScript strings\<close>

text \<open>
  The download route (\<^verbatim>\<open>src/app/api/download/route.ts\<close>) works on JavaScript strings,
  which are sequences of UTF-16 code units; a regular expression without the \<^verbatim>\<open>u\<close> flag
  and \<^verbatim>\<open>String.prototype.includes\<close> both work code unit by code unit.  A string is
  therefore a list of 16-bit words.  \<open>ascii\<close> embeds an ASCII literal.
\<close>

type_synonym jschar = "16 word"
type_synonym jsstring = "jschar list"
type_synonym byte = "8 word"

definition ascii :: "string \<Rightarrow> jsstring" where
  "ascii s = map (\<lambda>c. of_nat (of_char c)) s"

definition dquote :: jschar where "dquote = 0x22"
definition slash :: jschar where "slash = 0x2F"
definition backslash :: jschar where "backslash = 0x5C"
definition hyphen :: jschar where "hyphen = 0x2D"

text \<open>Template-literal interpolation of a number: decimal digits.\<close>

fun decimal :: "nat \<Rightarrow> jsstring" where
  "decimal n =
     (if n < 10 then [of_nat (48 + n)]
      else decimal (n div 10) @ [of_nat (48 + n mod 10)])"

declare decimal.simps [simp del]

text \<open>
  \<^verbatim>\<open>s.includes(t)\<close>: \<open>t\<close> occurs in \<open>s\<close> as a contiguous run of code units.
\<close>

fun js_includes :: "jsstring \<Rightarrow> jsstring \<Rightarrow> bool" where
  "js_includes [] t = (t = [])"
| "js_includes (c # cs) t = (take (length t) (c # cs) = t \<or> js_includes cs t)"

section \<open>The file name: line 23 of the route\<close>

text \<open>
  \<^verbatim>\<open>const safeFileName = (fileName || DEFAULT).replace(/[^\w\s-]/g, '') + '.mp4';\<close>
  where \<^verbatim>\<open>DEFAULT\<close> is the two-character literal U+89C6 U+9891 ("video").

  The expression has no \<^verbatim>\<open>u\<close> or \<^verbatim>\<open>i\<close> flag, so \<^verbatim>\<open>\w\<close> is exactly
  \<^verbatim>\<open>[A-Za-z0-9_]\<close>, and \<^verbatim>\<open>\s\<close> is ECMAScript's WhiteSpace and LineTerminator:
  TAB, LF, VT, FF, CR, SPACE, U+00A0, U+1680, U+2000 to U+200A, U+2028, U+2029, U+202F,
  U+205F, U+3000 and U+FEFF.
\<close>

definition word_char :: "jschar \<Rightarrow> bool" where
  "word_char c \<longleftrightarrow>
     (0x41 \<le> c \<and> c \<le> 0x5A) \<or> (0x61 \<le> c \<and> c \<le> 0x7A) \<or> (0x30 \<le> c \<and> c \<le> 0x39) \<or> c = 0x5F"

definition space_char :: "jschar \<Rightarrow> bool" where
  "space_char c \<longleftrightarrow>
     c = 0x09 \<or> c = 0x0A \<or> c = 0x0B \<or> c = 0x0C \<or> c = 0x0D \<or> c = 0x20 \<or> c = 0xA0 \<or>
     c = 0x1680 \<or> (0x2000 \<le> c \<and> c \<le> 0x200A) \<or> c = 0x2028 \<or> c = 0x2029 \<or>
     c = 0x202F \<or> c = 0x205F \<or> c = 0x3000 \<or> c = 0xFEFF"

text \<open>The class \<^verbatim>\<open>[^\w\s-]\<close>: the code units the \<^verbatim>\<open>replace\<close> deletes.\<close>

definition unsafe_char :: "jschar \<Rightarrow> bool" where
  "unsafe_char c \<longleftrightarrow> \<not> (word_char c \<or> space_char c \<or> c = hyphen)"

definition default_name :: jsstring where
  "default_name = [0x89C6, 0x9891]"

text \<open>\<^verbatim>\<open>fileName || DEFAULT\<close>: an absent and an empty \<open>fileName\<close> are both falsy.\<close>

definition or_default :: "jsstring option \<Rightarrow> jsstring" where
  "or_default fileName =
     (case fileName of None \<Rightarrow> default_name
      | Some s \<Rightarrow> if s = [] then default_name else s)"

definition safeFileName :: "jsstring option \<Rightarrow> jsstring" where
  "safeFileName fileName =
     filter (\<lambda>c. \<not> unsafe_char c) (or_default fileName) @ ascii ''.mp4''"

section \<open>\<^verbatim>\<open>path.join\<close> (POSIX)\<close>

text \<open>
  \<^verbatim>\<open>join\<close> is Node's, not the repository's; it is modelled after Node's \<^verbatim>\<open>path.posix\<close>:
  the non-empty arguments are glued with \<^verbatim>\<open>/\<close> and the result is normalised.
  Normalising walks the segments between the separators: an empty segment and \<^verbatim>\<open>.\<close>
  are dropped, \<^verbatim>\<open>..\<close> removes the segment before it (or, in a relative path with
  nothing left to remove, is kept), anything else is appended.  \<open>normalizeString\<close>
  keeps the segments collected so far as a stack, the last one on top.
\<close>

fun split_sep :: "jsstring \<Rightarrow> jsstring list" where
  "split_sep [] = [[]]"
| "split_sep (c # cs) =
     (if c = slash then [] # split_sep cs
      else (case split_sep cs of [] \<Rightarrow> [[c]] | s # ss \<Rightarrow> (c # s) # ss))"

fun join_sep :: "jsstring list \<Rightarrow> jsstring" where
  "join_sep [] = []"
| "join_sep [s] = s"
| "join_sep (s # t # ss) = s @ slash # join_sep (t # ss)"

fun normalizeString :: "bool \<Rightarrow> jsstring list \<Rightarrow> jsstring list \<Rightarrow> jsstring list" where
  "normalizeString allowAboveRoot stack [] = rev stack"
| "normalizeString allowAboveRoot stack (s # ss) =
     (if s = [] \<or> s = ascii ''.'' then normalizeString allowAboveRoot stack ss
      else if s = ascii ''..'' then
        (case stack of
           [] \<Rightarrow> normalizeString allowAboveRoot (if allowAboveRoot then [s] else []) ss
         | t # ts \<Rightarrow>
             if t \<noteq> ascii ''..'' then normalizeString allowAboveRoot ts ss
             else normalizeString allowAboveRoot (if allowAboveRoot then s # stack else stack) ss)
      else normalizeString allowAboveRoot (s # stack) ss)"

definition isAbsolute :: "jsstring \<Rightarrow> bool" where
  "isAbsolute p \<longleftrightarrow> (case p of [] \<Rightarrow> False | c # _ \<Rightarrow> c = slash)"

definition path_segments :: "jsstring \<Rightarrow> jsstring list" where
  "path_segments p = normalizeString (\<not> isAbsolute p) [] (split_sep p)"

definition render_path :: "bool \<Rightarrow> jsstring list \<Rightarrow> jsstring" where
  "render_path absolute segs = (if absolute then [slash] else []) @ join_sep segs"

definition normalize :: "jsstring \<Rightarrow> jsstring" where
  "normalize p =
     (if p = [] then ascii ''.''
      else
        let trailingSeparator = (last p = slash);
            segs = path_segments p
        in if segs = [] then
             (if isAbsolute p then ascii ''/''
              else if trailingSeparator then ascii ''./'' else ascii ''.'')
           else render_path (isAbsolute p) segs @ (if trailingSeparator then [slash] else []))"

definition join :: "jsstring \<Rightarrow> jsstring \<Rightarrow> jsstring" where
  "join a b =
     (let parts = filter (\<lambda>s. s \<noteq> []) [a, b]
      in if parts = [] then ascii ''.'' else normalize (join_sep parts))"

section \<open>The fallback advice: lines 58 to 88 of the route\<close>

text \<open>
  One entry of the \<^verbatim>\<open>methods\<close> array.  The first two entries have a \<^verbatim>\<open>command\<close> and
  an \<^verbatim>\<open>install\<close> field and no \<^verbatim>\<open>note\<close>; the last two have a \<^verbatim>\<open>note\<close> only.
  The commands are template literals: the URL and the file name are spliced in between
  double quotes, as they are.
\<close>

record method_entry =
  name :: jsstring
  description :: jsstring
  command :: "jsstring option"
  install :: "jsstring option"
  note_text :: "jsstring option"

definition yt_dlp_command :: "jsstring \<Rightarrow> jsstring \<Rightarrow> jsstring" where
  "yt_dlp_command videoUrl safeName =
     ascii ''yt-dlp '' @ [dquote] @ videoUrl @ [dquote] @ ascii '' -o '' @ [dquote] @ safeName @ [dquote]"

definition ffmpeg_command :: "jsstring \<Rightarrow> jsstring \<Rightarrow> jsstring" where
  "ffmpeg_command videoUrl safeName =
     ascii ''ffmpeg -i '' @ [dquote] @ videoUrl @ [dquote] @ ascii '' -c copy '' @ [dquote] @ safeName @ [dquote]"

definition methods :: "jsstring \<Rightarrow> jsstring \<Rightarrow> method_entry list" where
  "methods videoUrl safeName =
     [\<lparr>name = ascii ''yt-dlp'',
       description = [0x5F3A, 0x5927, 0x7684, 0x89C6, 0x9891, 0x4E0B, 0x8F7D, 0x5DE5, 0x5177,
                      0xFF0C, 0x652F, 0x6301, 0x591A, 0x79CD, 0x683C, 0x5F0F],
       command = Some (yt_dlp_command videoUrl safeName),
       install = Some (ascii ''pip install yt-dlp '' @ [0x6216, 0x4ECE] @
                       ascii '' https://github.com/yt-dlp/yt-dlp/releases '' @ [0x4E0B, 0x8F7D]),
       note_text = None\<rparr>,
      \<lparr>name = ascii ''FFmpeg'',
       description = [0x4E13, 0x4E1A, 0x7684, 0x97F3, 0x89C6, 0x9891, 0x5904, 0x7406, 0x5DE5, 0x5177],
       command = Some (ffmpeg_command videoUrl safeName),
       install = Some ([0x4ECE] @ ascii '' https://ffmpeg.org/download.html '' @
                       [0x4E0B, 0x8F7D, 0x6216, 0x4F7F, 0x7528, 0x5305, 0x7BA1, 0x7406, 0x5668,
                        0x5B89, 0x88C5]),
       note_text = None\<rparr>,
      \<lparr>name = ascii ''IDM (Internet Download Manager)'',
       description = ascii ''Windows'' @ [0x5E73, 0x53F0, 0x7684, 0x4E0B, 0x8F7D, 0x7BA1, 0x7406, 0x5668],
       command = None,
       install = None,
       note_text = Some [0x76F4, 0x63A5, 0x7C98, 0x8D34, 0x94FE, 0x63A5, 0x5373, 0x53EF, 0x4E0B, 0x8F7D]\<rparr>,
      \<lparr>name = [0x8FC5, 0x96F7],
       description = [0x56FD, 0x5185, 0x5E38, 0x7528, 0x7684, 0x4E0B, 0x8F7D, 0x5DE5, 0x5177],
       command = None,
       install = None,
       note_text = Some ([0x652F, 0x6301] @ ascii ''HLS'' @ [0x6D41, 0x4E0B, 0x8F7D])\<rparr>]"

section \<open>The world outside the handler\<close>

text \<open>
  What the handler does to its surroundings is recorded in a \<open>world\<close>: the files of the
  scratch directory, the processes spawned (command and argument list), the timers
  registered (delay in milliseconds), the signals sent to the child and the paths
  \<^verbatim>\<open>fs.unlink\<close> was called on, each in order.

  What the surroundings do to the handler is an \<open>env\<close>: the values of \<^verbatim>\<open>tmpdir()\<close> and
  \<^verbatim>\<open>randomUUID()\<close>, the events the event loop delivers to the callbacks that
  \<open>convertHLSToMP4\<close> registers (in delivery order), what FFmpeg leaves at the
  output path (nothing, or some bytes, complete or partial), and whether
  \<^verbatim>\<open>fs.readFile\<close> and \<^verbatim>\<open>fs.unlink\<close> fail (with which message).
\<close>

datatype event =
    StderrData jsstring
  | CloseEvent "nat option"
  | ErrorEvent jsstring
  | TimeoutFired

record world =
  files :: "jsstring \<rightharpoonup> byte list"
  spawned :: "(jsstring \<times> jsstring list) list"
  timers :: "nat list"
  signals :: "jsstring list"
  unlinked :: "jsstring list"

record env =
  tmpdir :: jsstring
  randomUUID :: jsstring
  events :: "event list"
  ffmpeg_output :: "byte list option"
  readFile_error :: "jsstring option"
  unlink_error :: "jsstring option"

definition readFile :: "env \<Rightarrow> world \<Rightarrow> jsstring \<Rightarrow> jsstring + byte list" where
  "readFile e w path =
     (case readFile_error e of
        Some msg \<Rightarrow> Inl msg
      | None \<Rightarrow> (case files w path of None \<Rightarrow> Inl (ascii ''ENOENT'') | Some buf \<Rightarrow> Inr buf))"

text \<open>
  \<^verbatim>\<open>await fs.unlink(outputPath).catch(() => {})\<close>: the call is made, and a rejection is
  swallowed by the empty handler; the file is gone unless the call failed.
\<close>

definition unlink_swallowed :: "env \<Rightarrow> world \<Rightarrow> jsstring \<Rightarrow> world" where
  "unlink_swallowed e w path =
     (let w1 = w\<lparr>unlinked := unlinked w @ [path]\<rparr>
      in case unlink_error e of
           Some msg \<Rightarrow> w1
         | None \<Rightarrow> w1\<lparr>files := (files w1)(path := None)\<rparr>)"

section \<open>\<open>convertHLSToMP4\<close>: lines 108 to 153 of the route\<close>

text \<open>
  The three \<^verbatim>\<open>new Error(...)\<close> the promise can be rejected with: a non-zero (or null)
  exit code together with the stderr text collected so far, an \<^verbatim>\<open>error\<close> event of the
  child process, and the timeout.  \<open>message\<close> is the text of the template literal.
\<close>

datatype rejection =
    ConversionFailed "nat option" jsstring
  | ProcessError jsstring
  | ConversionTimeout

definition message :: "rejection \<Rightarrow> jsstring" where
  "message r =
     (case r of
        ConversionFailed code err \<Rightarrow>
          ascii ''FFmpeg'' @ [0x8F6C, 0x6362, 0x5931, 0x8D25, 0xFF0C, 0x9000, 0x51FA, 0x7801] @
          ascii '': '' @ (case code of None \<Rightarrow> ascii ''null'' | Some n \<Rightarrow> decimal n) @
          [0x0A] @ err
      | ProcessError msg \<Rightarrow>
          ascii ''FFmpeg'' @ [0x8FDB, 0x7A0B, 0x9519, 0x8BEF] @ ascii '': '' @ msg
      | ConversionTimeout \<Rightarrow> ascii ''FFmpeg'' @ [0x8F6C, 0x6362, 0x8D85, 0x65F6])"

text \<open>
  The state the callbacks share: the \<^verbatim>\<open>stderr\<close> variable, the promise (\<open>None\<close> while
  pending; \<open>Inr\<close> resolved with the output path, \<open>Inl\<close> rejected), and the signals sent
  with \<^verbatim>\<open>ffmpeg.kill\<close>.  A promise settles once: \<^verbatim>\<open>resolve\<close> and \<^verbatim>\<open>reject\<close> on a
  settled promise do nothing.
\<close>

record promise_state =
  stderr :: jsstring
  settled :: "(rejection + jsstring) option"
  killed :: "jsstring list"

definition settle :: "rejection + jsstring \<Rightarrow> promise_state \<Rightarrow> promise_state" where
  "settle v p = (case settled p of None \<Rightarrow> p\<lparr>settled := Some v\<rparr> | Some _ \<Rightarrow> p)"

fun dispatch :: "jsstring \<Rightarrow> promise_state \<Rightarrow> event \<Rightarrow> promise_state" where
  "dispatch outputPath p (StderrData d) = p\<lparr>stderr := stderr p @ d\<rparr>"
| "dispatch outputPath p (CloseEvent code) =
     (if code = Some 0 then settle (Inr outputPath) p
      else settle (Inl (ConversionFailed code (stderr p))) p)"
| "dispatch outputPath p (ErrorEvent msg) = settle (Inl (ProcessError msg)) p"
| "dispatch outputPath p TimeoutFired =
     settle (Inl ConversionTimeout) (p\<lparr>killed := killed p @ [ascii ''SIGKILL'']\<rparr>)"

definition run_events :: "jsstring \<Rightarrow> event list \<Rightarrow> promise_state" where
  "run_events outputPath evs =
     foldl (dispatch outputPath) \<lparr>stderr = [], settled = None, killed = []\<rparr> evs"

definition timeout_ms :: nat where
  "timeout_ms = 10 * 60 * 1000"

definition ffmpeg_args :: "jsstring \<Rightarrow> jsstring \<Rightarrow> jsstring list" where
  "ffmpeg_args hlsUrl outputPath =
     [ascii ''-i'', hlsUrl, ascii ''-c'', ascii ''copy'', ascii ''-bsf:a'', ascii ''aac_adtstoasc'',
      ascii ''-movflags'', ascii ''faststart'', ascii ''-y'', outputPath]"

definition temp_path :: "env \<Rightarrow> jsstring \<Rightarrow> jsstring" where
  "temp_path e fileName = join (tmpdir e) (randomUUID e @ ascii ''_'' @ fileName)"

text \<open>
  The result is \<open>None\<close> when no delivered event settles the promise: the caller's
  \<^verbatim>\<open>await\<close> then never continues.
\<close>

definition convertHLSToMP4 ::
  "env \<Rightarrow> world \<Rightarrow> jsstring \<Rightarrow> jsstring \<Rightarrow> (rejection + jsstring) option \<times> world" where
  "convertHLSToMP4 e w hlsUrl fileName =
     (let outputPath = temp_path e fileName;
          p = run_events outputPath (events e)
      in (settled p,
          w\<lparr>spawned := spawned w @ [(ascii ''ffmpeg'', ffmpeg_args hlsUrl outputPath)],
            timers := timers w @ [timeout_ms],
            signals := signals w @ killed p,
            files := (case ffmpeg_output e of
                        None \<Rightarrow> files w
                      | Some buf \<Rightarrow> (files w)(outputPath \<mapsto> buf))\<rparr>))"

section \<open>\<open>POST\<close>: lines 12 to 100 of the route\<close>

text \<open>
  The body of the request is what \<^verbatim>\<open>await request.json()\<close> gives: \<open>Inl msg\<close> when it
  throws (the outer \<^verbatim>\<open>catch\<close> answers 500 with the message), otherwise the two fields,
  each a string or absent.

  The answers, one constructor per \<^verbatim>\<open>return\<close>:
  \<^item> \<open>Json400 error\<close>: \<^verbatim>\<open>{ error }\<close> with status 400;
  \<^item> \<open>JsonDirect url fileName\<close>: \<^verbatim>\<open>{ success: true, directDownload: true, url, fileName }\<close>;
  \<^item> \<open>FileStream body headers\<close>: the converted file with its headers;
  \<^item> \<open>JsonFailed error suggestion methods videoUrl fileName\<close>: \<^verbatim>\<open>success: false\<close> and the advice;
  \<^item> \<open>Json500 error details\<close>: status 500.
\<close>

record request_body =
  videoUrl :: "jsstring option"
  fileName :: "jsstring option"

datatype response =
    Json400 jsstring
  | JsonDirect jsstring jsstring
  | FileStream "byte list" "(jsstring \<times> jsstring) list"
  | JsonFailed jsstring jsstring "method_entry list" jsstring jsstring
  | Json500 jsstring jsstring

definition content_disposition :: "jsstring \<Rightarrow> jsstring" where
  "content_disposition safeName =
     ascii ''attachment; filename='' @ [dquote] @ safeName @ [dquote]"

definition response_headers :: "jsstring \<Rightarrow> byte list \<Rightarrow> (jsstring \<times> jsstring) list" where
  "response_headers safeName fileBuffer =
     [(ascii ''Content-Type'', ascii ''video/mp4''),
      (ascii ''Content-Disposition'', content_disposition safeName),
      (ascii ''Content-Length'', decimal (length fileBuffer))]"

text \<open>
  \<^verbatim>\<open>new NextResponse(body, { headers })\<close> is the Fetch \<^verbatim>\<open>Response\<close> constructor: it throws a
  \<^verbatim>\<open>TypeError\<close> for a header value that is not a byte string (a code unit above 0xFF) or
  that contains NUL, LF or CR.  The \<^verbatim>\<open>return\<close> stands inside the inner \<^verbatim>\<open>try\<close>, so the
  error lands in the same \<^verbatim>\<open>catch\<close> as a failed conversion.
\<close>

definition valid_header_value :: "jsstring \<Rightarrow> bool" where
  "valid_header_value v \<longleftrightarrow> list_all (\<lambda>c. c \<le> 0xFF \<and> c \<noteq> 0x00 \<and> c \<noteq> 0x0A \<and> c \<noteq> 0x0D) v"

definition failed_response :: "jsstring \<Rightarrow> jsstring \<Rightarrow> response" where
  "failed_response url safeName =
     JsonFailed
       (ascii ''HLS'' @ [0x89C6, 0x9891, 0x6D41, 0x8F6C, 0x6362, 0x5931, 0x8D25])
       ([0x5EFA, 0x8BAE, 0x4F7F, 0x7528, 0x4EE5, 0x4E0B, 0x65B9, 0x6CD5, 0x4E0B, 0x8F7D] @
        ascii ''HLS'' @ [0x89C6, 0x9891, 0x6D41])
       (methods url safeName) url safeName"

definition missing_url_error :: jsstring where
  "missing_url_error = [0x7F3A, 0x5C11, 0x89C6, 0x9891] @ ascii ''URL'' @ [0x53C2, 0x6570]"

definition server_error :: jsstring where
  "server_error = [0x670D, 0x52A1, 0x5668, 0x5185, 0x90E8, 0x9519, 0x8BEF]"

definition isHLS :: "jsstring \<Rightarrow> bool" where
  "isHLS url = js_includes url (ascii ''.m3u8'')"

text \<open>
  The handler.  \<open>None\<close> as the answer: the conversion promise never settled, the handler
  is still waiting.
\<close>

definition POST :: "env \<Rightarrow> world \<Rightarrow> jsstring + request_body \<Rightarrow> response option \<times> world" where
  "POST e w request_json =
     (case request_json of
        Inl msg \<Rightarrow> (Some (Json500 server_error msg), w)
      | Inr body \<Rightarrow>
          (case videoUrl body of
             None \<Rightarrow> (Some (Json400 missing_url_error), w)
           | Some url \<Rightarrow>
               if url = [] then (Some (Json400 missing_url_error), w)
               else
                 let safeName = safeFileName (fileName body) in
                 if \<not> isHLS url then (Some (JsonDirect url safeName), w)
                 else
                   (case convertHLSToMP4 e w url safeName of
                      (None, w1) \<Rightarrow> (None, w1)
                    | (Some (Inl ffmpegError), w1) \<Rightarrow> (Some (failed_response url safeName), w1)
                    | (Some (Inr outputPath), w1) \<Rightarrow>
                        (case readFile e w1 outputPath of
                           Inl readError \<Rightarrow> (Some (failed_response url safeName), w1)
                         | Inr fileBuffer \<Rightarrow>
                             let w2 = unlink_swallowed e w1 outputPath;
                                 headers = response_headers safeName fileBuffer
                             in if list_all (\<lambda>h. valid_header_value (snd h)) headers
                                then (Some (FileStream fileBuffer headers), w2)
                                else (Some (failed_response url safeName), w2)))))"

section \<open>Notions of the specification\<close>

text \<open>
  The character classes the specification speaks of, on the ASCII range: letters, digits,
  whitespace; the control characters (C0, DEL and C1); the characters a shell gives a
  meaning to; and \<^verbatim>\<open>endsWith\<close>.
\<close>

definition ascii_letter :: "jschar \<Rightarrow> bool" where
  "ascii_letter c \<longleftrightarrow> (0x41 \<le> c \<and> c \<le> 0x5A) \<or> (0x61 \<le> c \<and> c \<le> 0x7A)"

definition ascii_digit :: "jschar \<Rightarrow> bool" where
  "ascii_digit c \<longleftrightarrow> 0x30 \<le> c \<and> c \<le> 0x39"

definition ascii_whitespace :: "jschar \<Rightarrow> bool" where
  "ascii_whitespace c \<longleftrightarrow> c = 0x09 \<or> c = 0x0A \<or> c = 0x0B \<or> c = 0x0C \<or> c = 0x0D \<or> c = 0x20"

definition control_char :: "jschar \<Rightarrow> bool" where
  "control_char c \<longleftrightarrow> c < 0x20 \<or> (0x7F \<le> c \<and> c \<le> 0x9F)"

definition shell_meta :: "jschar \<Rightarrow> bool" where
  "shell_meta c \<longleftrightarrow>
     c = dquote \<or> c = backslash \<or> c = 0x27 \<or> c = 0x60 \<or> c \<in> set (ascii ''|&;<>()$*?[]#~=%!{}^'')"

definition endsWith :: "jsstring \<Rightarrow> jsstring \<Rightarrow> bool" where
  "endsWith s t \<longleftrightarrow> length t \<le> length s \<and> drop (length s - length t) s = t"

text \<open>
  How a POSIX shell reads a ready-to-copy command line made of plain words and quoted
  parts (Shell Command Language, 2.2 Quoting).  Outside quotes, blanks separate
  the words, a backslash takes the next character literally, a single quote opens a
  literal run up to the next single quote, and a double quote opens a double-quoted
  part.  Inside double quotes everything is literal but four characters: the double
  quote closes the part, a backslash escapes one of the four (and joins lines), the
  dollar sign and the backquote start an expansion.  \<open>shell_words\<close> gives the
  argument list; it gives \<open>None\<close> for a line that is not one list of plain and quoted
  words: an unclosed quote, an expansion, an operator or another metacharacter outside
  quotes.  Its second argument is the word being read, if any.
\<close>

definition squote :: jschar where "squote = 0x27"
definition dollar :: jschar where "dollar = 0x24"
definition backquote :: jschar where "backquote = 0x60"

definition dq_special :: "jschar \<Rightarrow> bool" where
  "dq_special c \<longleftrightarrow> c = dquote \<or> c = backslash \<or> c = dollar \<or> c = backquote"

datatype quoting = Unquoted | SingleQuoted | DoubleQuoted

definition word_of :: "jsstring option \<Rightarrow> jsstring" where
  "word_of cur = (case cur of None \<Rightarrow> [] | Some w \<Rightarrow> w)"

fun shell_words :: "quoting \<Rightarrow> jsstring option \<Rightarrow> jsstring \<Rightarrow> jsstring list option" where
  "shell_words Unquoted cur [] = Some (case cur of None \<Rightarrow> [] | Some w \<Rightarrow> [w])"
| "shell_words SingleQuoted cur [] = None"
| "shell_words DoubleQuoted cur [] = None"
| "shell_words Unquoted cur (c # cs) =
     (if c = 0x20 \<or> c = 0x09 then
        (case cur of
           None \<Rightarrow> shell_words Unquoted None cs
         | Some w \<Rightarrow> map_option ((#) w) (shell_words Unquoted None cs))
      else if c = dquote then shell_words DoubleQuoted (Some (word_of cur)) cs
      else if c = squote then shell_words SingleQuoted (Some (word_of cur)) cs
      else if c = backslash then
        (case cs of
           [] \<Rightarrow> None
         | d # ds \<Rightarrow>
             if d = 0x0A then shell_words Unquoted cur ds
             else shell_words Unquoted (Some (word_of cur @ [d])) ds)
      else if shell_meta c \<or> c = 0x0A then None
      else shell_words Unquoted (Some (word_of cur @ [c])) cs)"
| "shell_words SingleQuoted cur (c # cs) =
     (if c = squote then shell_words Unquoted cur cs
      else shell_words SingleQuoted (Some (word_of cur @ [c])) cs)"
| "shell_words DoubleQuoted cur (c # cs) =
     (if c = dquote then shell_words Unquoted cur cs
      else if c = dollar \<or> c = backquote then None
      else if c = backslash then
        (case cs of
           [] \<Rightarrow> None
         | d # ds \<Rightarrow>
             if d = 0x0A then shell_words DoubleQuoted cur ds
             else if dq_special d then shell_words DoubleQuoted (Some (word_of cur @ [d])) ds
             else shell_words DoubleQuoted (Some (word_of cur @ [backslash, d])) ds)
      else shell_words DoubleQuoted (Some (word_of cur @ [c])) cs)"

definition shell_args :: "jsstring \<Rightarrow> jsstring list option" where
  "shell_args line = shell_words Unquoted None line"




text \<open>
  For the race between the process and the timer: an event that only adds to the
  \<^verbatim>\<open>stderr\<close> text settles nothing, and \<open>stderr_text\<close> is the text a run of events has
  added.
\<close>

definition is_stderr :: "event \<Rightarrow> bool" where
  "is_stderr ev \<longleftrightarrow> (case ev of StderrData d \<Rightarrow> True | _ \<Rightarrow> False)"

definition stderr_text :: "event list \<Rightarrow> jsstring" where
  "stderr_text evs = concat (map (\<lambda>ev. case ev of StderrData d \<Rightarrow> d | _ \<Rightarrow> []) evs)"

section \<open>Sample inputs\<close>

definition sample_url :: jsstring where
  "sample_url = ascii ''https://cdn.example/live/index.m3u8''"

definition sample_env :: env where
  "sample_env =
     \<lparr>tmpdir = ascii ''/tmp'', randomUUID = ascii ''0b5e8a52-7c1d-4f0e-9a63-2d1c4e8f7a90'',
      events = [StderrData (ascii ''frame=1''), CloseEvent (Some 0)],
      ffmpeg_output = Some [0x00, 0x00, 0x00, 0x18], readFile_error = None, unlink_error = None\<rparr>"

text \<open>
  \<open>failing_env\<close>: FFmpeg writes two bytes of output, reports an error and exits with
  code 1.  \<open>unreadable_env\<close>: FFmpeg succeeds, and reading the output back fails (as
  \<^verbatim>\<open>fs.readFile\<close> does for a file above its 2 GiB limit).
\<close>

definition failing_env :: env where
  "failing_env =
     sample_env\<lparr>events := [StderrData (ascii ''Invalid data found''), CloseEvent (Some 1)],
                ffmpeg_output := Some [0x00, 0x00]\<rparr>"

definition unreadable_env :: env where
  "unreadable_env = sample_env\<lparr>readFile_error := Some (ascii ''ERR_FS_FILE_TOO_LARGE'')\<rparr>"

text \<open>
  \<open>hang_env\<close>: the process writes a line and then hangs; the timer fires, and the
  killed process closes with a null exit code.
\<close>

definition hang_env :: env where
  "hang_env = sample_env\<lparr>events := [StderrData (ascii ''frame=1''), TimeoutFired, CloseEvent None]\<rparr>"

definition sample_request :: "jsstring + request_body" where
  "sample_request = Inr \<lparr>videoUrl = Some sample_url, fileName = Some (ascii ''My Clip!'')\<rparr>"

definition sample_path :: jsstring where
  "sample_path = ascii ''/tmp/0b5e8a52-7c1d-4f0e-9a63-2d1c4e8f7a90_My Clip.mp4''"

definition empty_world :: world where
  "empty_world = \<lparr>files = Map.empty, spawned = [], timers = [], signals = [], unlinked = []\<rparr>"

section \<open>Evaluating the regular-expression class\<close>

lemmas char_class_defs =
  word_char_def space_char_def unsafe_char_def hyphen_def slash_def dquote_def backslash_def

section \<open>The file name\<close>

text \<open>
  Claim C9 (the default base name).  With \<open>fileName\<close> absent or empty the route takes
  the default, the two ideographs U+89C6 U+9891; neither is matched by \<^verbatim>\<open>\w\<close>,
  \<^verbatim>\<open>\s\<close> or the hyphen, so the \<^verbatim>\<open>replace\<close> deletes both and the derived name is the
  bare extension \<^verbatim>\<open>.mp4\<close>: nothing of the default base name survives.
\<close>

theorem default_name_erased:
  "safeFileName None = ascii ''.mp4'' \<and> safeFileName (Some []) = ascii ''.mp4''"
  by (simp add: safeFileName_def or_default_def default_name_def char_class_defs ascii_def)

lemmas spec_class_defs =
  ascii_letter_def ascii_digit_def ascii_whitespace_def control_char_def shell_meta_def

lemma kept_ascii_conv:
  "(\<not> unsafe_char c \<and> c < 0x80) =
     (ascii_letter c \<or> ascii_digit c \<or> c = 0x5F \<or> ascii_whitespace c \<or> c = hyphen)"
  by (auto simp: char_class_defs spec_class_defs word_le_nat_alt word_less_nat_alt)

lemma kept_harmless:
  "\<not> unsafe_char c \<Longrightarrow>
     c \<noteq> slash \<and> \<not> shell_meta c \<and> (control_char c \<longrightarrow> ascii_whitespace c)"
  by (auto simp: char_class_defs spec_class_defs ascii_def word_le_nat_alt word_less_nat_alt)

lemma endsWith_append: "endsWith (xs @ t) t"
  by (simp add: endsWith_def)

lemma mp4_harmless:
  "list_all (\<lambda>c. c \<noteq> slash \<and> \<not> shell_meta c \<and> (control_char c \<longrightarrow> ascii_whitespace c))
     (ascii ''.mp4'')"
  by (simp add: char_class_defs spec_class_defs ascii_def)

text \<open>
  Claim C3, as the code has it.  The derived name always ends with \<^verbatim>\<open>.mp4\<close>.  Of the
  characters below U+0080 of the hint (or of the default, when the hint is absent or
  empty) the part before the extension keeps, in order, exactly the ASCII letters, the
  digits, the underscore, the ASCII whitespace (TAB, LF, VT, FF, CR, SPACE) and the
  hyphen.  The whole name holds no slash, no backslash, no quote, no other shell
  metacharacter, and no control character but the five that are whitespace.
\<close>

theorem safeFileName_sanitised:
  "endsWith (safeFileName hint) (ascii ''.mp4'') \<and>
   filter (\<lambda>c. c < 0x80) (take (length (safeFileName hint) - 4) (safeFileName hint)) =
     filter (\<lambda>c. ascii_letter c \<or> ascii_digit c \<or> c = 0x5F \<or> ascii_whitespace c \<or> c = hyphen)
       (or_default hint) \<and>
   list_all (\<lambda>c. c \<noteq> slash \<and> \<not> shell_meta c \<and> (control_char c \<longrightarrow> ascii_whitespace c))
     (safeFileName hint)"
proof -
  let ?base = "filter (\<lambda>c. \<not> unsafe_char c) (or_default hint)"
  have name: "safeFileName hint = ?base @ ascii ''.mp4''"
    by (simp add: safeFileName_def)
  have ends: "endsWith (safeFileName hint) (ascii ''.mp4'')"
    unfolding name by (rule endsWith_append)
  have "take (length (safeFileName hint) - 4) (safeFileName hint) = ?base"
    unfolding name by (simp add: ascii_def)
  then have kept:
    "filter (\<lambda>c. c < 0x80) (take (length (safeFileName hint) - 4) (safeFileName hint)) =
     filter (\<lambda>c. ascii_letter c \<or> ascii_digit c \<or> c = 0x5F \<or> ascii_whitespace c \<or> c = hyphen)
       (or_default hint)"
    by (simp add: kept_ascii_conv)
  have "list_all (\<lambda>c. c \<noteq> slash \<and> \<not> shell_meta c \<and> (control_char c \<longrightarrow> ascii_whitespace c)) ?base"
    unfolding list_all_iff using kept_harmless by auto
  then have harmless:
    "list_all (\<lambda>c. c \<noteq> slash \<and> \<not> shell_meta c \<and> (control_char c \<longrightarrow> ascii_whitespace c))
       (safeFileName hint)"
    unfolding name using mp4_harmless by simp
  from ends kept harmless show ?thesis by blast
qed

text \<open>
  The theorem at the hint \<^verbatim>\<open>My/Clip;$(x)_1-2!\<close>: the slash, the semicolon, the dollar,
  the parentheses and the exclamation mark go, the underscore and the hyphen stay.
\<close>

theorem safeFileName_sanitised_witness:
  "safeFileName (Some (ascii ''My/Clip;$(x)_1-2!'')) = ascii ''MyClipx_1-2.mp4'' \<and>
   endsWith (safeFileName (Some (ascii ''My/Clip;$(x)_1-2!''))) (ascii ''.mp4'') \<and>
   list_all (\<lambda>c. c \<noteq> slash \<and> \<not> shell_meta c \<and> (control_char c \<longrightarrow> ascii_whitespace c))
     (safeFileName (Some (ascii ''My/Clip;$(x)_1-2!'')))"
proof -
  have "safeFileName (Some (ascii ''My/Clip;$(x)_1-2!'')) = ascii ''MyClipx_1-2.mp4''"
    by (simp add: safeFileName_def or_default_def char_class_defs ascii_def)
  with safeFileName_sanitised [of "Some (ascii ''My/Clip;$(x)_1-2!'')"] show ?thesis
    by blast
qed

text \<open>
  Against claim C3 as it is worded: the hint \<^verbatim>\<open>a\<close> LF \<^verbatim>\<open>b\<close> holds a control character,
  and the derived name still holds it (LF is whitespace for \<^verbatim>\<open>\s\<close>); and the underscore,
  which is no letter, digit, whitespace or hyphen, is not stripped from \<^verbatim>\<open>a_b\<close>
  (it belongs to \<^verbatim>\<open>\w\<close>).
\<close>

theorem safeFileName_keeps_newline_and_underscore:
  "control_char 0x0A \<and> 0x0A \<in> set (safeFileName (Some [0x61, 0x0A, 0x62])) \<and>
   \<not> (ascii_letter 0x5F \<or> ascii_digit 0x5F \<or> ascii_whitespace 0x5F \<or> 0x5F = hyphen) \<and>
   0x5F \<in> set (safeFileName (Some [0x61, 0x5F, 0x62]))"
  by (simp add: safeFileName_def or_default_def char_class_defs spec_class_defs ascii_def)

section \<open>Stream classification and the direct link\<close>

lemma js_includes_iff: "js_includes s t \<longleftrightarrow> (\<exists>a b. s = a @ t @ b)"
proof (induction s)
  case Nil
  show ?case by simp
next
  case (Cons c cs)
  show ?case
  proof
    assume "js_includes (c # cs) t"
    then consider "take (length t) (c # cs) = t" | "js_includes cs t" by auto
    then show "\<exists>a b. c # cs = a @ t @ b"
    proof cases
      case 1
      then have "c # cs = [] @ t @ drop (length t) (c # cs)"
        by (metis append_Nil append_take_drop_id)
      then show ?thesis by blast
    next
      case 2
      with Cons.IH obtain a b where "cs = a @ t @ b" by blast
      then have "c # cs = (c # a) @ t @ b" by simp
      then show ?thesis by blast
    qed
  next
    assume "\<exists>a b. c # cs = a @ t @ b"
    then obtain a b where ab: "c # cs = a @ t @ b" by blast
    show "js_includes (c # cs) t"
    proof (cases a)
      case Nil
      with ab have "take (length t) (c # cs) = t" by simp
      then show ?thesis by simp
    next
      case (Cons x a')
      with ab have "cs = a' @ t @ b" by simp
      with Cons.IH have "js_includes cs t" by blast
      then show ?thesis by simp
    qed
  qed
qed

text \<open>
  Claim C5.  \<open>isHLS url\<close> holds exactly when \<^verbatim>\<open>.m3u8\<close> occurs somewhere in the URL.
  For a URL (a non-empty string) in which it does not occur, the handler answers with
  the direct link, carrying the URL as it came and the derived file name, and leaves
  the world as it was: no process is spawned, no timer registered, no file touched.
\<close>

theorem direct_link_without_m3u8:
  "(isHLS url \<longleftrightarrow> (\<exists>a b. url = a @ ascii ''.m3u8'' @ b)) \<and>
   (url \<noteq> [] \<and> \<not> (\<exists>a b. url = a @ ascii ''.m3u8'' @ b) \<longrightarrow>
      POST e w (Inr \<lparr>videoUrl = Some url, fileName = fn\<rparr>) =
        (Some (JsonDirect url (safeFileName fn)), w))"
  by (simp add: isHLS_def js_includes_iff POST_def)

text \<open>
  The theorem at \<^verbatim>\<open>https://h/clip.mp4\<close>, which gets the direct link; and a URL whose
  query string holds \<^verbatim>\<open>.m3u8\<close> is classified as a segmented stream.
\<close>

theorem direct_link_without_m3u8_witness:
  "isHLS (ascii ''https://h/play?src=a.m3u8&t=1'') \<and>
   ascii ''https://h/clip.mp4'' \<noteq> [] \<and>
   \<not> (\<exists>a b. ascii ''https://h/clip.mp4'' = a @ ascii ''.m3u8'' @ b) \<and>
   POST sample_env empty_world
       (Inr \<lparr>videoUrl = Some (ascii ''https://h/clip.mp4''), fileName = Some (ascii ''My Clip!'')\<rparr>) =
     (Some (JsonDirect (ascii ''https://h/clip.mp4'') (ascii ''My Clip.mp4'')), empty_world)"
proof -
  have hls: "isHLS (ascii ''https://h/play?src=a.m3u8&t=1'')"
    by (simp add: isHLS_def ascii_def)
  have "\<not> isHLS (ascii ''https://h/clip.mp4'')"
    by (simp add: isHLS_def ascii_def)
  with direct_link_without_m3u8 [of "ascii ''https://h/clip.mp4''"]
  have no: "\<not> (\<exists>a b. ascii ''https://h/clip.mp4'' = a @ ascii ''.m3u8'' @ b)"
    by blast
  have ne: "ascii ''https://h/clip.mp4'' \<noteq> []"
    by (simp add: ascii_def)
  have name: "safeFileName (Some (ascii ''My Clip!'')) = ascii ''My Clip.mp4''"
    by (simp add: safeFileName_def or_default_def char_class_defs ascii_def)
  from direct_link_without_m3u8 [of "ascii ''https://h/clip.mp4''" sample_env empty_world
      "Some (ascii ''My Clip!'')"] ne no name hls
  show ?thesis by simp
qed

section \<open>The caller error\<close>

text \<open>
  Claim C8.  A request whose \<open>videoUrl\<close> is missing or empty is answered at once with
  status 400 and the message "missing video URL parameter".  The answer is not the
  failure answer of a conversion (it carries no advice), and the world is as it was:
  no process was spawned and no file was written.
\<close>

theorem missing_url_rejected:
  "videoUrl body = None \<or> videoUrl body = Some [] \<Longrightarrow>
     POST e w (Inr body) = (Some (Json400 missing_url_error), w) \<and>
     Json400 missing_url_error \<noteq> failed_response u f \<and>
     spawned (snd (POST e w (Inr body))) = spawned w \<and>
     files (snd (POST e w (Inr body))) = files w"
  by (auto simp: POST_def failed_response_def)

text \<open>The theorem at an empty and at an absent \<open>videoUrl\<close>.\<close>

theorem missing_url_rejected_witness:
  "POST sample_env empty_world (Inr \<lparr>videoUrl = Some [], fileName = Some (ascii ''x'')\<rparr>) =
     (Some (Json400 missing_url_error), empty_world) \<and>
   POST sample_env empty_world (Inr \<lparr>videoUrl = None, fileName = None\<rparr>) =
     (Some (Json400 missing_url_error), empty_world)"
  using missing_url_rejected [of "\<lparr>videoUrl = Some [], fileName = Some (ascii ''x'')\<rparr>" sample_env empty_world]
    missing_url_rejected [of "\<lparr>videoUrl = None, fileName = None\<rparr>" sample_env empty_world]
  by simp

section \<open>The commands of the fallback advice\<close>

lemmas shell_char_defs =
  dquote_def squote_def backslash_def dollar_def backquote_def dq_special_def shell_meta_def
  word_of_def

lemma shell_words_double_quoted:
  "list_all (\<lambda>c. \<not> dq_special c) a \<Longrightarrow>
     shell_words DoubleQuoted (Some w) (a @ dquote # r) = shell_words Unquoted (Some (w @ a)) r"
proof (induction a arbitrary: w)
  case Nil
  show ?case by simp
next
  case (Cons c cs)
  from Cons.prems have c: "c \<noteq> dquote" "c \<noteq> dollar" "c \<noteq> backquote" "c \<noteq> backslash"
    and cs: "list_all (\<lambda>c. \<not> dq_special c) cs"
    by (simp_all add: dq_special_def)
  show ?case using c Cons.IH [OF cs, of "w @ [c]"] by (simp add: word_of_def)
qed



lemma ffmpeg_prefix:
  "shell_words Unquoted None (ascii ''ffmpeg -i '' @ dquote # r) =
     map_option ((#) (ascii ''ffmpeg''))
       (map_option ((#) (ascii ''-i'')) (shell_words DoubleQuoted (Some []) r))"
  by (simp add: ascii_def shell_char_defs)

lemma ffmpeg_middle:
  "shell_words Unquoted (Some u) (ascii '' -c copy '' @ dquote # r) =
     map_option ((#) u)
       (map_option ((#) (ascii ''-c''))
          (map_option ((#) (ascii ''copy'')) (shell_words DoubleQuoted (Some []) r)))"
  by (simp add: ascii_def shell_char_defs)



lemma ffmpeg_args:
  assumes "list_all (\<lambda>c. \<not> dq_special c) u" and "list_all (\<lambda>c. \<not> dq_special c) f"
  shows "shell_args (ffmpeg_command u f) =
           Some [ascii ''ffmpeg'', ascii ''-i'', u, ascii ''-c'', ascii ''copy'', f]"
proof -
  have "shell_args (ffmpeg_command u f) =
      shell_words Unquoted None
        (ascii ''ffmpeg -i '' @ dquote # u @ dquote # ascii '' -c copy '' @ dquote # f @ [dquote])"
    by (simp add: shell_args_def ffmpeg_command_def)
  also have "\<dots> = map_option ((#) (ascii ''ffmpeg'')) (map_option ((#) (ascii ''-i''))
      (shell_words Unquoted (Some u) (ascii '' -c copy '' @ dquote # f @ [dquote])))"
    using shell_words_double_quoted [OF assms(1), of "[]"] by (simp add: ffmpeg_prefix)
  also have "shell_words Unquoted (Some u) (ascii '' -c copy '' @ dquote # f @ [dquote]) =
      map_option ((#) u) (map_option ((#) (ascii ''-c''))
        (map_option ((#) (ascii ''copy'')) (shell_words Unquoted (Some f) [])))"
    using shell_words_double_quoted [OF assms(2), of "[]" "[]"] by (simp add: ffmpeg_middle)
  finally show ?thesis by simp
qed




section \<open>The race between the process and the timer\<close>

lemma settle_settled: "settled p = Some v \<Longrightarrow> settle x p = p"
  by (simp add: settle_def)

lemma settle_pending: "settled p = None \<Longrightarrow> settled (settle x p) = Some x"
  by (simp add: settle_def)

lemma dispatch_settled:
  "settled p = Some v \<Longrightarrow> settled (dispatch path p ev) = Some v"
  by (cases ev) (simp_all add: settle_def)

lemma foldl_dispatch_settled:
  "settled p = Some v \<Longrightarrow> settled (foldl (dispatch path) p evs) = Some v"
  by (induction evs arbitrary: p) (simp_all add: dispatch_settled)

lemma dispatch_killed: "set (killed p) \<subseteq> set (killed (dispatch path p ev))"
  by (cases ev) (auto simp: settle_def split: option.splits)

lemma foldl_dispatch_killed: "set (killed p) \<subseteq> set (killed (foldl (dispatch path) p evs))"
proof (induction evs arbitrary: p)
  case Nil
  show ?case by simp
next
  case (Cons ev evs)
  have "set (killed p) \<subseteq> set (killed (dispatch path p ev))" by (rule dispatch_killed)
  also have "\<dots> \<subseteq> set (killed (foldl (dispatch path) (dispatch path p ev) evs))" by (rule Cons.IH)
  finally show ?case by simp
qed

lemma foldl_dispatch_stderr:
  "list_all is_stderr pre \<Longrightarrow>
     foldl (dispatch path) p pre = p\<lparr>stderr := stderr p @ stderr_text pre\<rparr>"
proof (induction pre arbitrary: p)
  case Nil
  show ?case by (simp add: stderr_text_def)
next
  case (Cons ev pre)
  from Cons.prems obtain d where ev: "ev = StderrData d"
    by (cases ev) (simp_all add: is_stderr_def)
  from Cons.prems have "list_all is_stderr pre" by simp
  then show ?case using Cons.IH [of "dispatch path p ev"]
    by (simp add: ev stderr_text_def)
qed

lemma run_events_first:
  assumes "list_all is_stderr pre"
  shows "run_events path (pre @ ev # post) =
           foldl (dispatch path)
             (dispatch path \<lparr>stderr = stderr_text pre, settled = None, killed = []\<rparr> ev) post"
  using foldl_dispatch_stderr [OF assms, of path "\<lparr>stderr = [], settled = None, killed = []\<rparr>"]
  by (simp add: run_events_def)

text \<open>
  Claim C2.  \<open>convertHLSToMP4\<close> registers one timer, of 600 seconds (600 000 ms).  Take
  the first delivered event that is not stderr output: the promise is settled by it,
  whatever is delivered afterwards.  If it is the timer, the child is sent SIGKILL and
  the result is the timeout error, also when the process closes or errs later; if it is
  the exit of the process, the result is the output path (code 0) or the exit code with
  the stderr text so far, also when the timer fires later.  The caller gets this one
  result.
\<close>

theorem first_settlement_wins:
  assumes "events e = pre @ ev # post" and "list_all is_stderr pre" and "\<not> is_stderr ev"
  shows "timers (snd (convertHLSToMP4 e w url f)) = timers w @ [600 * 1000] \<and>
         fst (convertHLSToMP4 e w url f) =
           Some (case ev of
                   CloseEvent code \<Rightarrow>
                     if code = Some 0 then Inr (temp_path e f)
                     else Inl (ConversionFailed code (stderr_text pre))
                 | ErrorEvent msg \<Rightarrow> Inl (ProcessError msg)
                 | _ \<Rightarrow> Inl ConversionTimeout) \<and>
         (ev = TimeoutFired \<longrightarrow>
            fst (convertHLSToMP4 e w url f) = Some (Inl ConversionTimeout) \<and>
            ascii ''SIGKILL'' \<in> set (signals (snd (convertHLSToMP4 e w url f))))"
proof -
  let ?path = "temp_path e f"
  let ?p0 = "\<lparr>stderr = stderr_text pre, settled = None, killed = []\<rparr>"
  let ?p1 = "dispatch ?path ?p0 ev"
  have run: "run_events ?path (events e) = foldl (dispatch ?path) ?p1 post"
    using run_events_first [OF assms(2)] assms(1) by simp
  have first: "settled ?p1 =
      Some (case ev of
              CloseEvent code \<Rightarrow>
                if code = Some 0 then Inr ?path else Inl (ConversionFailed code (stderr_text pre))
            | ErrorEvent msg \<Rightarrow> Inl (ProcessError msg)
            | _ \<Rightarrow> Inl ConversionTimeout)"
    using assms(3) by (cases ev) (simp_all add: settle_def is_stderr_def)
  have result: "fst (convertHLSToMP4 e w url f) = settled (foldl (dispatch ?path) ?p1 post)"
    by (simp add: convertHLSToMP4_def Let_def run)
  have timer: "timers (snd (convertHLSToMP4 e w url f)) = timers w @ [600 * 1000]"
    by (simp add: convertHLSToMP4_def Let_def timeout_ms_def)
  have wins: "fst (convertHLSToMP4 e w url f) =
      Some (case ev of
              CloseEvent code \<Rightarrow>
                if code = Some 0 then Inr ?path else Inl (ConversionFailed code (stderr_text pre))
            | ErrorEvent msg \<Rightarrow> Inl (ProcessError msg)
            | _ \<Rightarrow> Inl ConversionTimeout)"
    unfolding result using first by (rule foldl_dispatch_settled)
  have kill: "ascii ''SIGKILL'' \<in> set (signals (snd (convertHLSToMP4 e w url f)))"
    if "ev = TimeoutFired"
  proof -
    have "ascii ''SIGKILL'' \<in> set (killed ?p1)"
      using that by (simp add: settle_def)
    then have "ascii ''SIGKILL'' \<in> set (killed (foldl (dispatch ?path) ?p1 post))"
      using foldl_dispatch_killed by blast
    then show ?thesis by (simp add: convertHLSToMP4_def Let_def run)
  qed
  from timer wins kill show ?thesis by simp
qed

text \<open>
  The theorem at a process that hangs: stderr output, then the timer, then the close
  event of the killed process.
\<close>

theorem first_settlement_wins_witness:
  "timers (snd (convertHLSToMP4 hang_env empty_world sample_url (ascii ''My Clip.mp4''))) = [600000] \<and>
   fst (convertHLSToMP4 hang_env empty_world sample_url (ascii ''My Clip.mp4'')) =
     Some (Inl ConversionTimeout) \<and>
   ascii ''SIGKILL'' \<in> set (signals (snd (convertHLSToMP4 hang_env empty_world sample_url (ascii ''My Clip.mp4''))))"
proof -
  have ev: "events hang_env = [StderrData (ascii ''frame=1'')] @ TimeoutFired # [CloseEvent None]"
    by (simp add: hang_env_def sample_env_def)
  have pre: "list_all is_stderr [StderrData (ascii ''frame=1'')]"
    by (simp add: is_stderr_def)
  have set: "\<not> is_stderr TimeoutFired"
    by (simp add: is_stderr_def)
  from first_settlement_wins [OF ev pre set, of empty_world sample_url "ascii ''My Clip.mp4''"]
  show ?thesis by (simp add: empty_world_def)
qed

section \<open>The temporary file\<close>

lemma sample_name: "safeFileName (Some (ascii ''My Clip!'')) = ascii ''My Clip.mp4''"
  by (simp add: safeFileName_def or_default_def char_class_defs ascii_def)

lemma sample_temp_path:
  "tmpdir e = tmpdir sample_env \<Longrightarrow> randomUUID e = randomUUID sample_env \<Longrightarrow>
     temp_path e (ascii ''My Clip.mp4'') = sample_path"
  by (simp add: temp_path_def sample_env_def sample_path_def join_def normalize_def path_segments_def
      render_path_def isAbsolute_def slash_def ascii_def)

lemma sample_isHLS: "isHLS sample_url \<and> sample_url \<noteq> []"
  by (simp add: isHLS_def sample_url_def ascii_def)

lemma failing_env_fields:
  "events failing_env = [StderrData (ascii ''Invalid data found''), CloseEvent (Some 1)]"
  "ffmpeg_output failing_env = Some [0x00, 0x00]"
  by (simp_all add: failing_env_def sample_env_def)

lemma unreadable_env_fields:
  "events unreadable_env = [StderrData (ascii ''frame=1''), CloseEvent (Some 0)]"
  "ffmpeg_output unreadable_env = Some [0x00, 0x00, 0x00, 0x18]"
  "readFile_error unreadable_env = Some (ascii ''ERR_FS_FILE_TOO_LARGE'')"
  by (simp_all add: unreadable_env_def sample_env_def)

lemma failing_conv:
  "convertHLSToMP4 failing_env empty_world sample_url (ascii ''My Clip.mp4'') =
     (Some (Inl (ConversionFailed (Some 1) (ascii ''Invalid data found''))),
      empty_world\<lparr>spawned := [(ascii ''ffmpeg'', ffmpeg_args sample_url sample_path)],
        timers := [timeout_ms], signals := [],
        files := [sample_path \<mapsto> [0x00, 0x00]]\<rparr>)"
proof -
  have path: "temp_path failing_env (ascii ''My Clip.mp4'') = sample_path"
    by (rule sample_temp_path) (simp_all add: failing_env_def)
  show ?thesis
    by (simp add: convertHLSToMP4_def path Let_def run_events_def settle_def failing_env_fields
        empty_world_def)
qed

lemma failing_post:
  "POST failing_env empty_world sample_request =
     (Some (failed_response sample_url (ascii ''My Clip.mp4'')),
      empty_world\<lparr>spawned := [(ascii ''ffmpeg'', ffmpeg_args sample_url sample_path)],
        timers := [timeout_ms], signals := [],
        files := [sample_path \<mapsto> [0x00, 0x00]]\<rparr>)"
  using sample_isHLS by (simp add: POST_def sample_request_def sample_name failing_conv)

lemma unreadable_conv:
  "convertHLSToMP4 unreadable_env empty_world sample_url (ascii ''My Clip.mp4'') =
     (Some (Inr sample_path),
      empty_world\<lparr>spawned := [(ascii ''ffmpeg'', ffmpeg_args sample_url sample_path)],
        timers := [timeout_ms], signals := [],
        files := [sample_path \<mapsto> [0x00, 0x00, 0x00, 0x18]]\<rparr>)"
proof -
  have path: "temp_path unreadable_env (ascii ''My Clip.mp4'') = sample_path"
    by (rule sample_temp_path) (simp_all add: unreadable_env_def)
  show ?thesis
    by (simp add: convertHLSToMP4_def path Let_def run_events_def settle_def unreadable_env_fields
        empty_world_def)
qed

lemma unreadable_read: "readFile unreadable_env w sample_path = Inl (ascii ''ERR_FS_FILE_TOO_LARGE'')"
  by (simp add: readFile_def unreadable_env_fields)

lemma unreadable_post:
  "POST unreadable_env empty_world sample_request =
     (Some (failed_response sample_url (ascii ''My Clip.mp4'')),
      empty_world\<lparr>spawned := [(ascii ''ffmpeg'', ffmpeg_args sample_url sample_path)],
        timers := [timeout_ms], signals := [],
        files := [sample_path \<mapsto> [0x00, 0x00, 0x00, 0x18]]\<rparr>)"
  using sample_isHLS
  by (simp add: POST_def sample_request_def sample_name unreadable_conv unreadable_read)

text \<open>
  What holds of the clean-up in general: when the conversion resolves and the read
  succeeds, \<^verbatim>\<open>fs.unlink\<close> is called exactly once, on the output path, before the answer
  (whether or not the call fails, the answer is the same); in every other case it is
  not called at all.
\<close>

lemma convert_keeps_unlinked: "unlinked (snd (convertHLSToMP4 e w url f)) = unlinked w"
  by (simp add: convertHLSToMP4_def Let_def)

lemma unlink_once_when_read_succeeds:
  assumes "url \<noteq> []" and "isHLS url"
    and "convertHLSToMP4 e w url (safeFileName fn) = (Some (Inr p), w1)"
    and "readFile e w1 p = Inr buf"
  shows "unlinked (snd (POST e w (Inr \<lparr>videoUrl = Some url, fileName = fn\<rparr>))) = unlinked w @ [p]"
proof -
  have "unlinked w1 = unlinked w"
    using convert_keeps_unlinked [of e w url "safeFileName fn"] assms(3) by simp
  then show ?thesis
    using assms by (simp add: POST_def Let_def unlink_swallowed_def split: option.splits)
qed

lemma no_unlink_otherwise:
  assumes "convertHLSToMP4 e w url (safeFileName fn) = (r, w1)"
    and "\<forall>p. r = Some (Inr p) \<longrightarrow> (\<exists>msg. readFile e w1 p = Inl msg)"
  shows "unlinked (snd (POST e w (Inr \<lparr>videoUrl = Some url, fileName = fn\<rparr>))) = unlinked w"
proof -
  have "unlinked w1 = unlinked w"
    using convert_keeps_unlinked [of e w url "safeFileName fn"] assms(1) by simp
  then show ?thesis
    using assms by (auto simp: POST_def Let_def split: option.splits sum.splits)
qed

text \<open>
  Claim C1 on the code: FFmpeg exits with code 0 and has written the file, and
  \<^verbatim>\<open>fs.readFile\<close> fails.  The handler answers with the failure advice, and
  \<^verbatim>\<open>fs.unlink\<close> has not been called: the file is still there.
\<close>

theorem read_failure_skips_unlink:
  "fst (convertHLSToMP4 unreadable_env empty_world sample_url (ascii ''My Clip.mp4'')) =
     Some (Inr sample_path) \<and>
   readFile unreadable_env
       (snd (convertHLSToMP4 unreadable_env empty_world sample_url (ascii ''My Clip.mp4'')))
       sample_path = Inl (ascii ''ERR_FS_FILE_TOO_LARGE'') \<and>
   fst (POST unreadable_env empty_world sample_request) =
     Some (failed_response sample_url (ascii ''My Clip.mp4'')) \<and>
   unlinked (snd (POST unreadable_env empty_world sample_request)) = [] \<and>
   files (snd (POST unreadable_env empty_world sample_request)) sample_path =
     Some [0x00, 0x00, 0x00, 0x18]"
  unfolding unreadable_conv unreadable_post unreadable_read by (simp add: empty_world_def)

text \<open>
  Claim C4 on the code: FFmpeg writes part of the output, reports an error and exits
  with code 1.  The promise is rejected with the exit code and the stderr text, the
  handler answers with the failure advice, \<^verbatim>\<open>fs.unlink\<close> has not been called, and the
  partial file is still there.
\<close>

theorem nonzero_exit_leaves_file:
  "fst (convertHLSToMP4 failing_env empty_world sample_url (ascii ''My Clip.mp4'')) =
     Some (Inl (ConversionFailed (Some 1) (ascii ''Invalid data found''))) \<and>
   fst (POST failing_env empty_world sample_request) =
     Some (failed_response sample_url (ascii ''My Clip.mp4'')) \<and>
   unlinked (snd (POST failing_env empty_world sample_request)) = [] \<and>
   files (snd (POST failing_env empty_world sample_request)) sample_path = Some [0x00, 0x00]"
  unfolding failing_conv failing_post by (simp add: empty_world_def)

section \<open>The fallback advice\<close>

text \<open>
  Claim C6.  Whenever the handler answers with the failure advice, the list of methods
  is \<open>methods\<close> applied to the URL and the derived file name, and to nothing else: the
  environment and the world do not enter.  The list has four entries in a fixed order.
  The first two are yt-dlp and FFmpeg; their commands are the templates
  \<^verbatim>\<open>yt-dlp "URL" -o "NAME"\<close> and \<^verbatim>\<open>ffmpeg -i "URL" -c copy "NAME"\<close> with the URL and
  the file name spliced in as they are, and they have an install hint and no note.
  The last two (two download managers) have a note and neither command nor install hint.
\<close>

theorem methods_shape:
  "(fst (POST e w (Inr \<lparr>videoUrl = Some url, fileName = fn\<rparr>)) = Some (JsonFailed a b ms u f) \<longrightarrow>
      ms = methods url (safeFileName fn) \<and> u = url \<and> f = safeFileName fn) \<and>
   map name (methods url f') =
     [ascii ''yt-dlp'', ascii ''FFmpeg'', ascii ''IDM (Internet Download Manager)'', [0x8FC5, 0x96F7]] \<and>
   map command (methods url f') =
     [Some (ascii ''yt-dlp '' @ dquote # url @ dquote # ascii '' -o '' @ dquote # f' @ [dquote]),
      Some (ascii ''ffmpeg -i '' @ dquote # url @ dquote # ascii '' -c copy '' @ dquote # f' @ [dquote]),
      None, None] \<and>
   map (\<lambda>m. install m = None) (methods url f') = [False, False, True, True] \<and>
   map (\<lambda>m. note_text m = None) (methods url f') = [True, True, False, False]"
  by (auto simp: POST_def failed_response_def methods_def yt_dlp_command_def ffmpeg_command_def Let_def
      split: option.splits sum.splits prod.splits if_splits)

text \<open>
  The theorem at a run that does answer with the advice (FFmpeg exits with code 1).
\<close>

theorem methods_shape_witness:
  "fst (POST failing_env empty_world sample_request) =
     Some (failed_response sample_url (ascii ''My Clip.mp4'')) \<and>
   map command (methods sample_url (ascii ''My Clip.mp4'')) =
     [Some (ascii ''yt-dlp '' @ dquote # sample_url @ dquote #
            ascii '' -o '' @ dquote # ascii ''My Clip.mp4'' @ [dquote]),
      Some (ascii ''ffmpeg -i '' @ dquote # sample_url @ dquote #
            ascii '' -c copy '' @ dquote # ascii ''My Clip.mp4'' @ [dquote]),
      None, None]"
proof -
  let ?e = "ascii ''HLS'' @ [0x89C6, 0x9891, 0x6D41, 0x8F6C, 0x6362, 0x5931, 0x8D25]"
  let ?s = "[0x5EFA, 0x8BAE, 0x4F7F, 0x7528, 0x4EE5, 0x4E0B, 0x65B9, 0x6CD5, 0x4E0B, 0x8F7D] @
            ascii ''HLS'' @ [0x89C6, 0x9891, 0x6D41]"
  have failed: "fst (POST failing_env empty_world sample_request) =
      Some (failed_response sample_url (ascii ''My Clip.mp4''))"
    by (simp add: failing_post)
  then have "fst (POST failing_env empty_world
        (Inr \<lparr>videoUrl = Some sample_url, fileName = Some (ascii ''My Clip!'')\<rparr>)) =
      Some (JsonFailed ?e ?s (methods sample_url (ascii ''My Clip.mp4'')) sample_url
        (ascii ''My Clip.mp4''))"
    by (simp add: sample_request_def failed_response_def)
  with methods_shape [of failing_env empty_world sample_url "Some (ascii ''My Clip!'')" ?e ?s
      "methods sample_url (ascii ''My Clip.mp4'')" sample_url "ascii ''My Clip.mp4''"
      "ascii ''My Clip.mp4''"]
  have "map command (methods sample_url (ascii ''My Clip.mp4'')) =
     [Some (ascii ''yt-dlp '' @ dquote # sample_url @ dquote #
            ascii '' -o '' @ dquote # ascii ''My Clip.mp4'' @ [dquote]),
      Some (ascii ''ffmpeg -i '' @ dquote # sample_url @ dquote #
            ascii '' -c copy '' @ dquote # ascii ''My Clip.mp4'' @ [dquote]),
      None, None]"
    by blast
  with failed show ?thesis by blast
qed

section \<open>The file name in the header and in the path\<close>



















section \<open>The successful conversion of the sample request\<close>

text \<open>
  Every rejection carries a non-empty message.  And the run of the specification's
  example, with a four-byte output: FFmpeg exits with code 0, the file is read and
  unlinked once, and the answer is the file with its three headers.
\<close>

lemma message_nonempty: "message r \<noteq> []"
  by (cases r) (simp_all add: message_def ascii_def)

lemma sample_env_fields:
  "events sample_env = [StderrData (ascii ''frame=1''), CloseEvent (Some 0)]"
  "ffmpeg_output sample_env = Some [0x00, 0x00, 0x00, 0x18]"
  "readFile_error sample_env = None"
  "unlink_error sample_env = None"
  by (simp_all add: sample_env_def)

lemma sample_conv:
  "convertHLSToMP4 sample_env empty_world sample_url (ascii ''My Clip.mp4'') =
     (Some (Inr sample_path),
      empty_world\<lparr>spawned := [(ascii ''ffmpeg'', ffmpeg_args sample_url sample_path)],
        timers := [timeout_ms], signals := [],
        files := [sample_path \<mapsto> [0x00, 0x00, 0x00, 0x18]]\<rparr>)"
proof -
  have path: "temp_path sample_env (ascii ''My Clip.mp4'') = sample_path"
    by (rule sample_temp_path) simp_all
  show ?thesis
    by (simp add: convertHLSToMP4_def path Let_def run_events_def settle_def sample_env_fields
        empty_world_def)
qed

lemma sample_headers_valid:
  "list_all (\<lambda>h. valid_header_value (snd h)) (response_headers (ascii ''My Clip.mp4'') [0x00, 0x00, 0x00, 0x18])"
  by (simp add: response_headers_def valid_header_value_def content_disposition_def decimal.simps
      ascii_def dquote_def)

lemma sample_success:
  "fst (POST sample_env empty_world sample_request) =
     Some (FileStream [0x00, 0x00, 0x00, 0x18]
       [(ascii ''Content-Type'', ascii ''video/mp4''),
        (ascii ''Content-Disposition'', content_disposition (ascii ''My Clip.mp4'')),
        (ascii ''Content-Length'', ascii ''4'')]) \<and>
   unlinked (snd (POST sample_env empty_world sample_request)) = [sample_path] \<and>
   files (snd (POST sample_env empty_world sample_request)) sample_path = None"
proof -
  have rd: "readFile sample_env
      (empty_world\<lparr>spawned := [(ascii ''ffmpeg'', ffmpeg_args sample_url sample_path)],
        timers := [timeout_ms], signals := [],
        files := [sample_path \<mapsto> [0x00, 0x00, 0x00, 0x18]]\<rparr>) sample_path =
      Inr [0x00, 0x00, 0x00, 0x18]"
    by (simp add: readFile_def sample_env_fields)
  have len: "decimal (length [0x00, 0x00, 0x00, 0x18 :: byte]) = ascii ''4''"
    by (simp add: decimal.simps ascii_def)
  have "POST sample_env empty_world sample_request =
      (Some (FileStream [0x00, 0x00, 0x00, 0x18]
         (response_headers (ascii ''My Clip.mp4'') [0x00, 0x00, 0x00, 0x18])),
       unlink_swallowed sample_env
         (empty_world\<lparr>spawned := [(ascii ''ffmpeg'', ffmpeg_args sample_url sample_path)],
            timers := [timeout_ms], signals := [],
            files := [sample_path \<mapsto> [0x00, 0x00, 0x00, 0x18]]\<rparr>) sample_path)"
    using sample_isHLS sample_headers_valid
    by (simp add: POST_def sample_request_def sample_name sample_conv rd Let_def)
  then show ?thesis
    by (simp add: unlink_swallowed_def sample_env_fields empty_world_def response_headers_def len
        del: length_Cons list.size)
qed

end
